theory Spec2Isabelle
  imports Complex_Main "HOL-Library.Word" "HOL-Library.Monad_Syntax"
begin

unbundle bit_operations_syntax

section \<open>Node hierarchy: ModelTool::CombineTransformsFromNodeIndices\<close>

text \<open>
  Source: Source/Engine/Tools/ModelTool/ModelTool.h, lines 399-413.

  The node array is \<open>Array<Node>\<close> with \<open>Node = {ParentIndex : int32, LocalTransform :
  Transform, Name : String}\<close> (ImportedModelData::Node, lines 70-86). Indices are 32-bit
  signed integers: a \<open>32 word\<close> read through \<open>sint\<close>; the constant \<open>-1\<close> is the word
  of all ones.

  \<open>Transform\<close>, \<open>Transform::Identity\<close> and \<open>Transform::LocalToWorld\<close> are declared in
  Engine/Core/Math, outside these sources. The function is a template over the node type
  already; the embedding is likewise polymorphic in the transform type \<open>'t\<close> and takes
  \<open>LocalToWorld\<close> (the receiver is the parent, the argument the child) and \<open>Identity\<close> as
  parameters, so that everything proved holds for the engine's transform as well.

  \<open>Array<T>::operator[]\<close> is outside these sources as well. An index outside
  \<open>[0, Count)\<close> is written into the model as the outcome \<open>IndexOutOfRange\<close> (the
  engine's bounds assertion), never as an unspecified read.

  The function is recursive with no bound on the depth, so it is a partial function:
  \<open>None\<close> is "the call does not return", \<open>Some (Inl e)\<close> an abort, \<open>Some (Inr t)\<close> the
  returned transform.
\<close>

type_synonym int32 = "32 word"

record 't Node =
  ParentIndex :: int32
  LocalTransform :: 't
  Name :: string

datatype fault = IndexOutOfRange

definition in_bounds :: "'a list \<Rightarrow> int32 \<Rightarrow> bool" where
  "in_bounds xs i = (0 \<le> sint i \<and> sint i < int (length xs))"

definition element :: "'a list \<Rightarrow> int32 \<Rightarrow> 'a" where
  "element xs i = xs ! nat (sint i)"

definition at_index :: "'a list \<Rightarrow> int32 \<Rightarrow> fault + 'a" where
  "at_index xs i = (if in_bounds xs i then Inr (element xs i) else Inl IndexOutOfRange)"

partial_function (option) CombineTransformsFromNodeIndices ::
  "('t \<Rightarrow> 't \<Rightarrow> 't) \<Rightarrow> 't \<Rightarrow> 't Node list \<Rightarrow> int32 \<Rightarrow> int32 \<Rightarrow> (fault + 't) option" where
  "CombineTransformsFromNodeIndices LocalToWorld Identity nodes rootIndex index =
     (if index = -1 \<or> index = rootIndex then Some (Inr Identity)
      else case at_index nodes index of
        Inl e \<Rightarrow> Some (Inl e)
      | Inr node \<Rightarrow>
          (let result = LocalTransform node in
           if index \<noteq> rootIndex then
             do {
               r \<leftarrow> CombineTransformsFromNodeIndices LocalToWorld Identity nodes rootIndex
                      (ParentIndex node);
               (case r of
                  Inl e \<Rightarrow> Some (Inl e)
                | Inr parentTransform \<Rightarrow> Some (Inr (LocalToWorld parentTransform result)))
             }
           else Some (Inr result)))"

declare CombineTransformsFromNodeIndices.simps [code]

text \<open>
  The variant the refinement claim compares with: the same function with the inner test
  \<open>if (index != rootIndex)\<close> removed, so that the parent composition is unconditional.
\<close>

partial_function (option) CombineTransforms_simplified ::
  "('t \<Rightarrow> 't \<Rightarrow> 't) \<Rightarrow> 't \<Rightarrow> 't Node list \<Rightarrow> int32 \<Rightarrow> int32 \<Rightarrow> (fault + 't) option" where
  "CombineTransforms_simplified LocalToWorld Identity nodes rootIndex index =
     (if index = -1 \<or> index = rootIndex then Some (Inr Identity)
      else case at_index nodes index of
        Inl e \<Rightarrow> Some (Inl e)
      | Inr node \<Rightarrow>
          (let result = LocalTransform node in
           do {
             r \<leftarrow> CombineTransforms_simplified LocalToWorld Identity nodes rootIndex
                    (ParentIndex node);
             (case r of
                Inl e \<Rightarrow> Some (Inl e)
              | Inr parentTransform \<Rightarrow> Some (Inr (LocalToWorld parentTransform result)))
           }))"

declare CombineTransforms_simplified.simps [code]

subsection \<open>Specification side: the parent chain and its composition\<close>

text \<open>
  \<open>parent_chain nodes rootIndex index path\<close>: \<open>path\<close> lists the indices visited from
  \<open>index\<close> upwards along \<open>ParentIndex\<close>, every one inside the array and different from
  \<open>rootIndex\<close> and \<open>-1\<close>, the parent of the last one being \<open>rootIndex\<close> or \<open>-1\<close>. Such
  a path exists exactly when the chain from \<open>index\<close> ends at the root; it is then free of
  repetitions. The root itself is not on the path.
\<close>

fun parent_chain :: "'t Node list \<Rightarrow> int32 \<Rightarrow> int32 \<Rightarrow> int32 list \<Rightarrow> bool" where
  "parent_chain nodes rootIndex index [] = (index = -1 \<or> index = rootIndex)"
| "parent_chain nodes rootIndex index (i # path) =
     (i = index \<and> index \<noteq> -1 \<and> index \<noteq> rootIndex \<and> in_bounds nodes index \<and>
      parent_chain nodes rootIndex (ParentIndex (element nodes index)) path)"

text \<open>
  The composition the specification describes: start from the identity and walk from the
  root end of the path down to the target, each time applying the transform accumulated
  so far (the parent) to the next node's local transform (the child).
\<close>

definition compose_from_root ::
  "('t \<Rightarrow> 't \<Rightarrow> 't) \<Rightarrow> 't \<Rightarrow> 't Node list \<Rightarrow> int32 list \<Rightarrow> 't" where
  "compose_from_root LocalToWorld Identity nodes path =
     foldl (\<lambda>acc i. LocalToWorld acc (LocalTransform (element nodes i))) Identity (rev path)"

text \<open>
  \<open>parent_closed nodes rootIndex S\<close>: every index in \<open>S\<close> is inside the array, is
  neither \<open>rootIndex\<close> nor \<open>-1\<close>, and has its parent in \<open>S\<close> again. A chain that
  enters such a set never leaves it: since the array is finite, it runs into a cycle
  (possibly of length one, a node that is its own parent) that avoids the root.
\<close>

definition parent_closed :: "'t Node list \<Rightarrow> int32 \<Rightarrow> int32 list \<Rightarrow> bool" where
  "parent_closed nodes rootIndex S =
     list_all (\<lambda>j. j \<noteq> -1 \<and> j \<noteq> rootIndex \<and> in_bounds nodes j \<and>
                    ParentIndex (element nodes j) \<in> set S) S"

subsection \<open>Concrete data for evaluation\<close>

text \<open>
  A small transform type to run the function on: scale and offset on a line, written
  \<open>(s, t)\<close> for \<open>x \<mapsto> s * x + t\<close>. Composition is not commutative, so the order of
  application is visible in the results.
\<close>

definition line_LocalToWorld :: "int \<times> int \<Rightarrow> int \<times> int \<Rightarrow> int \<times> int" where
  "line_LocalToWorld parent child = (fst parent * fst child, fst parent * snd child + snd parent)"

definition line_Identity :: "int \<times> int" where
  "line_Identity = (1, 0)"

definition tree_nodes :: "(int \<times> int) Node list" where
  "tree_nodes =
     [\<lparr>ParentIndex = -1, LocalTransform = (2, 1), Name = ''Root''\<rparr>,
      \<lparr>ParentIndex = 0, LocalTransform = (3, 5), Name = ''Hip''\<rparr>,
      \<lparr>ParentIndex = 1, LocalTransform = (1, 7), Name = ''Knee''\<rparr>]"

definition cyclic_nodes :: "(int \<times> int) Node list" where
  "cyclic_nodes =
     [\<lparr>ParentIndex = -1, LocalTransform = (2, 1), Name = ''Root''\<rparr>,
      \<lparr>ParentIndex = 2, LocalTransform = (3, 5), Name = ''A''\<rparr>,
      \<lparr>ParentIndex = 1, LocalTransform = (1, 7), Name = ''B''\<rparr>]"

section \<open>Import options: ModelTool::Options and ModelTool::GenerateModelSDF\<close>

text \<open>
  Source: Source/Engine/Tools/ModelTool/ModelTool.h, lines 195-214 (the enumerations),
  219-364 (the structure and its default member initialisers) and 187 (the declaration
  of GenerateModelSDF).

  A \<open>float\<close> value is represented by the real number it is. The literals among the
  default member initialisers (\<open>175.0f\<close>, \<open>45.0f\<close>, \<open>1.0f\<close>, \<open>0.5f\<close>, \<open>0.0f\<close>) are
  single-precision numbers exactly; the literal \<open>0.6f\<close> of GenerateModelSDF is not, and
  is given its single-precision value below. \<open>int32\<close> fields are 32-bit words, \<open>String\<close>
  fields are strings.
\<close>

datatype ModelType = Model | SkinnedModel | Animation

datatype AnimationDuration = Imported | Custom

text \<open>
  The enumeration \<open>ModelLightmapUVsSource\<close> is declared in Engine/Graphics/Models,
  outside these sources; only its enumerator \<open>Disable\<close> occurs here. The other
  enumerators are kept apart from it by their integer value.
\<close>

datatype ModelLightmapUVsSource = Disable | OtherLightmapUVsSource int32

record Float2 =
  X2 :: real
  Y2 :: real

record Float3 =
  X3 :: real
  Y3 :: real
  Z3 :: real

record Quaternion =
  QX :: real
  QY :: real
  QZ :: real
  QW :: real

text \<open>
  Modelled from the spec: the constants \<open>Float2::Zero\<close>, \<open>Float3::Zero\<close> and
  \<open>Quaternion::Identity\<close> are declared in Engine/Core/Math, outside these sources. The
  spec names them "(0,0)", "zero" and "identity": the zero vectors and the quaternion of
  the rotation that turns nothing.
\<close>

definition Float2_Zero :: Float2 where
  "Float2_Zero = \<lparr>X2 = 0, Y2 = 0\<rparr>"

definition Float3_Zero :: Float3 where
  "Float3_Zero = \<lparr>X3 = 0, Y3 = 0, Z3 = 0\<rparr>"

definition Quaternion_Identity :: Quaternion where
  "Quaternion_Identity = \<lparr>QX = 0, QY = 0, QZ = 0, QW = 1\<rparr>"

text \<open>
  The structure, field by field in the order of the source. \<open>SplitContext\<close> is a
  \<open>void*\<close> (\<open>None\<close> is \<open>nullptr\<close>); \<open>OnSplitImport\<close> is a \<open>Function\<close> object, which
  holds either no callable (\<open>None\<close>, as after default construction) or one.
\<close>

record Options =
  Type :: ModelType
  CalculateNormals :: bool
  SmoothingNormalsAngle :: real
  FlipNormals :: bool
  CalculateTangents :: bool
  SmoothingTangentsAngle :: real
  OptimizeMeshes :: bool
  MergeMeshes :: bool
  ImportLODs :: bool
  ImportVertexColors :: bool
  ImportBlendShapes :: bool
  LightmapUVsSource :: ModelLightmapUVsSource
  CollisionMeshesPrefix :: string
  Scale :: real
  Rotation :: Quaternion
  Translation :: Float3
  CenterGeometry :: bool
  Duration :: AnimationDuration
  FramesRange :: Float2
  DefaultFrameRate :: real
  SamplingRate :: real
  SkipEmptyCurves :: bool
  OptimizeKeyframes :: bool
  ImportScaleTracks :: bool
  EnableRootMotion :: bool
  RootNodeName :: string
  GenerateLODs :: bool
  BaseLOD :: int32
  LODCount :: int32
  TriangleReduction :: real
  ImportMaterials :: bool
  ImportTextures :: bool
  RestoreMaterialsOnReimport :: bool
  GenerateSDF :: bool
  SDFResolution :: real
  SplitObjects :: bool
  ObjectIndex :: int32
  SplitContext :: "nat option"
  OnSplitImport :: "nat option"

text \<open>Default construction: every field takes its default member initialiser.\<close>

definition Options_default :: Options where
  "Options_default =
     \<lparr>Type = Model,
      CalculateNormals = False,
      SmoothingNormalsAngle = 175.0,
      FlipNormals = False,
      CalculateTangents = False,
      SmoothingTangentsAngle = 45.0,
      OptimizeMeshes = True,
      MergeMeshes = True,
      ImportLODs = True,
      ImportVertexColors = True,
      ImportBlendShapes = False,
      LightmapUVsSource = Disable,
      CollisionMeshesPrefix = '''',
      Scale = 1.0,
      Rotation = Quaternion_Identity,
      Translation = Float3_Zero,
      CenterGeometry = False,
      Duration = Imported,
      FramesRange = Float2_Zero,
      DefaultFrameRate = 0.0,
      SamplingRate = 0.0,
      SkipEmptyCurves = True,
      OptimizeKeyframes = True,
      ImportScaleTracks = False,
      EnableRootMotion = False,
      RootNodeName = '''',
      GenerateLODs = False,
      BaseLOD = 0,
      LODCount = 4,
      TriangleReduction = 0.5,
      ImportMaterials = True,
      ImportTextures = True,
      RestoreMaterialsOnReimport = True,
      GenerateSDF = False,
      SDFResolution = 1.0,
      SplitObjects = False,
      ObjectIndex = -1,
      SplitContext = None,
      OnSplitImport = None\<rparr>"






section \<open>Imported model data: the destructor\<close>

text \<open>
  Source: Source/Engine/Tools/ModelTool/ModelTool.h, lines 60-143.

  A \<open>MeshData*\<close> is an address. The fields of \<open>ImportedModelData\<close> that the constructor
  and the destructor body touch are \<open>Types\<close> and \<open>LODs\<close>; the others (\<open>Textures\<close>,
  \<open>Materials\<close>, \<open>Skeleton\<close>, \<open>Nodes\<close>, \<open>Animation\<close>) have types declared outside these
  sources and are left out. \<open>ImportDataTypes\<close> is a set of flags in an \<open>int32\<close>.

  The heap of mesh records is explicit: the set of addresses that hold a live record,
  and the sequence of deletions performed so far, so that a record deleted twice shows.
\<close>

type_synonym addr = nat

record LOD =
  Meshes :: "addr list"

record ImportedModelData =
  Types :: int32
  LODs :: "LOD list"

record MeshHeap =
  live :: "addr set"
  deleted :: "addr list"

definition ImportedModelData_ctor :: "int32 \<Rightarrow> ImportedModelData" where
  "ImportedModelData_ctor types = \<lparr>Types = types, LODs = []\<rparr>"

text \<open>
  Modelled from the spec: \<open>Array<T*>::ClearDelete\<close> and \<open>Delete\<close> are declared in
  Engine/Core, outside these sources. The spec: "destruction recursively releases all
  owned mesh records", "mesh records are exclusively owned by their LOD and released on
  container teardown". \<open>ClearDelete\<close> deletes the elements in order and leaves the array
  empty.
\<close>

definition Delete :: "MeshHeap \<Rightarrow> addr \<Rightarrow> MeshHeap" where
  "Delete h p = h\<lparr>live := live h - {p}, deleted := deleted h @ [p]\<rparr>"

definition ClearDelete :: "MeshHeap \<Rightarrow> addr list \<Rightarrow> MeshHeap \<times> addr list" where
  "ClearDelete h items = (foldl Delete h items, [])"

text \<open>
  The destructor body: \<open>for (int32 i = 0; i < LODs.Count(); i++) LODs[i].Meshes.ClearDelete();\<close>
  The counter stays below \<open>Count()\<close>, an \<open>int32\<close>, so it cannot overflow; it is a \<open>nat\<close>.
\<close>

function ImportedModelData_dtor_loop ::
  "nat \<Rightarrow> ImportedModelData \<times> MeshHeap \<Rightarrow> ImportedModelData \<times> MeshHeap" where
  "ImportedModelData_dtor_loop i (d, h) =
     (if i < length (LODs d) then
        (let (h', meshes') = ClearDelete h (Meshes (LODs d ! i)) in
         ImportedModelData_dtor_loop (i + 1)
           (d\<lparr>LODs := (LODs d)[i := (LODs d ! i)\<lparr>Meshes := meshes'\<rparr>]\<rparr>, h'))
      else (d, h))"
  by pat_completeness auto
termination
  by (relation "measure (\<lambda>(i, d, h). length (LODs d) - i)") (auto simp: ClearDelete_def)

definition ImportedModelData_dtor ::
  "ImportedModelData \<times> MeshHeap \<Rightarrow> ImportedModelData \<times> MeshHeap" where
  "ImportedModelData_dtor s = ImportedModelData_dtor_loop 0 s"

subsection \<open>Concrete data for evaluation\<close>

definition three_lods :: ImportedModelData where
  "three_lods =
     \<lparr>Types = 1, LODs = [\<lparr>Meshes = [100, 200]\<rparr>, \<lparr>Meshes = []\<rparr>, \<lparr>Meshes = [300]\<rparr>]\<rparr>"

definition four_meshes :: MeshHeap where
  "four_meshes = \<lparr>live = {100, 200, 300, 400}, deleted = []\<rparr>"

section \<open>Shader import: ImportShader::Import\<close>

text \<open>
  Source: Source/Engine/ContentImporters/ImportShader.cpp, lines 14-55.

  The function works on a \<open>CreateAssetContext\<close> and on the shader cache, and calls
  into the engine. State is passed explicitly: \<open>ImportState\<close> holds the context, the
  shader cache, the sequence of \<open>RemoveCache\<close> calls made and the warnings logged.
  What the engine and the platform decide is collected in \<open>Environment\<close>, a parameter
  of the model:
  \<^item> \<open>File_ReadAllText\<close>: the text \<open>File::ReadAllText\<close> delivers for a path, already
    converted to ANSI, or \<open>None\<close> when it reports failure (returns true);
  \<^item> \<open>AllocateChunk_fails\<close>: whether \<open>CreateAssetContext::AllocateChunk\<close> reports
    failure (returns true) for a context and a chunk index;
  \<^item> \<open>Uninitialized\<close>: the byte found at each offset of freshly allocated memory;
  \<^item> \<open>Encrypted_byte\<close>: \<open>Encryption::EncryptBytes\<close> rewrites \<open>n\<close> bytes in place;
    \<open>Encrypted_byte bytes offset\<close> is the byte it leaves at \<open>offset\<close> when run over
    \<open>bytes\<close> (any in-place transformation of a buffer has this form);
  \<^item> \<open>sizeof_Header20\<close>: \<open>sizeof(ShaderStorage::Header20)\<close>;
  \<^item> \<open>COMPILE_WITH_SHADER_CACHE_MANAGER\<close>: the preprocessor switch around lines 49-52.

  \<open>StringAnsi::Length()\<close> is an \<open>int32\<close>; a text has fewer than \<open>2^31 - 1\<close> characters by
  its type, so \<open>sourceCodeSize + 1\<close> does not overflow and lengths are natural numbers.

  The enumeration \<open>CreateAssetResult\<close> is declared outside these sources; the four
  enumerators that occur in the function are listed.
\<close>

type_synonym byte = "8 word"

type_synonym Guid = "128 word"

datatype CreateAssetResult = Ok | Error | InvalidPath | CannotAllocateChunk

datatype crash = NullChunkDereference

record FlaxChunk =
  Data :: "byte list"

record CreateAssetContext =
  InputPath :: string
  SkipMetadata :: bool
  Header_TypeName :: string
  SerializedVersion :: nat
  Header_ID :: Guid
  Header_Chunks :: "nat \<Rightarrow> FlaxChunk option"
  CustomData :: "byte list"

record ImportState =
  ctx :: CreateAssetContext
  ShaderCache :: "Guid \<Rightarrow> byte list option"
  RemoveCache_calls :: "Guid list"
  LogWarnings :: "string list"

record Environment =
  File_ReadAllText :: "string \<Rightarrow> byte list option"
  AllocateChunk_fails :: "CreateAssetContext \<Rightarrow> nat \<Rightarrow> bool"
  Uninitialized :: "nat \<Rightarrow> byte"
  Encrypted_byte :: "byte list \<Rightarrow> nat \<Rightarrow> byte"
  sizeof_Header20 :: nat
  COMPILE_WITH_SHADER_CACHE_MANAGER :: bool

text \<open>
  Modelled from the spec: the macro \<open>IMPORT_SETUP\<close> and
  \<open>CreateAssetContext::AllocateChunk\<close> are defined with the asset importing manager,
  outside these sources, which the spec counts among the external collaborators
  ("on-disk asset chunk storage"). The macro is taken to record its two arguments, the
  asset type and the serialized version, in the context. \<open>AllocateChunk\<close> returns true
  and changes nothing when the allocation fails (the spec's "AllocationError
  (chunk/buffer allocation failure)"); otherwise it returns false and the slot holds a
  new chunk without data.
\<close>

definition IMPORT_SETUP :: "string \<Rightarrow> nat \<Rightarrow> CreateAssetContext \<Rightarrow> CreateAssetContext" where
  "IMPORT_SETUP type serializedVersion c =
     c\<lparr>Header_TypeName := type, SerializedVersion := serializedVersion\<rparr>"

definition AllocateChunk ::
  "Environment \<Rightarrow> CreateAssetContext \<Rightarrow> nat \<Rightarrow> bool \<times> CreateAssetContext" where
  "AllocateChunk env c index =
     (if AllocateChunk_fails env c index then (True, c)
      else (False, c\<lparr>Header_Chunks := (Header_Chunks c)(index \<mapsto> \<lparr>Data = []\<rparr>)\<rparr>))"

text \<open>
  Modelled from the spec: the memory primitives \<open>DataContainer::Allocate\<close>,
  \<open>Platform::MemoryCopy\<close>, \<open>Platform::MemoryClear\<close> and \<open>Encryption::EncryptBytes\<close> are
  declared outside these sources; the spec describes the importer as "a straightforward
  read-encrypt-store operation". \<open>Allocate n\<close> gives \<open>n\<close> uninitialised bytes,
  \<open>MemoryCopy dst src n\<close> overwrites the first \<open>n\<close> bytes of \<open>dst\<close> with those of \<open>src\<close>,
  \<open>EncryptBytes buf n\<close> rewrites the first \<open>n\<close> bytes of \<open>buf\<close> and leaves the rest,
  \<open>MemoryClear n\<close> is \<open>n\<close> zero bytes.
\<close>

definition Allocate :: "Environment \<Rightarrow> nat \<Rightarrow> byte list" where
  "Allocate env n = map (Uninitialized env) [0..<n]"

definition MemoryCopy :: "byte list \<Rightarrow> byte list \<Rightarrow> nat \<Rightarrow> byte list" where
  "MemoryCopy dst src n = take n src @ drop n dst"

definition EncryptBytes :: "Environment \<Rightarrow> byte list \<Rightarrow> nat \<Rightarrow> byte list" where
  "EncryptBytes env buf n = map (Encrypted_byte env (take n buf)) [0..<n] @ drop n buf"

definition MemoryClear :: "nat \<Rightarrow> byte list" where
  "MemoryClear n = replicate n 0"

text \<open>
  Modelled from the spec: \<open>ShaderCacheManager::RemoveCache\<close> is declared outside these
  sources. The spec: "a cache keyed by asset identity (invalidated on shader reimport)".
  The call removes the entry stored under the given identity; the call is recorded.
\<close>

definition RemoveCache :: "Guid \<Rightarrow> ImportState \<Rightarrow> ImportState" where
  "RemoveCache shaderId s =
     s\<lparr>ShaderCache := (ShaderCache s)(shaderId := None),
       RemoveCache_calls := RemoveCache_calls s @ [shaderId]\<rparr>"

definition SourceCodeChunk :: nat where
  "SourceCodeChunk = 15"

text \<open>
  The function, statement by statement. The result is \<open>Inr (code, state)\<close> when the
  function returns \<open>code\<close>; \<open>Inl NullChunkDereference\<close> stands for reading through
  \<open>Chunks[SourceCodeChunk]\<close> when that slot is null.
\<close>

definition Import :: "Environment \<Rightarrow> ImportState \<Rightarrow> crash + CreateAssetResult \<times> ImportState" where
  "Import env s =
     (let c1 = IMPORT_SETUP ''Shader'' 20 (ctx s);
          c2 = c1\<lparr>SkipMetadata := True\<rparr>
      in case File_ReadAllText env (InputPath c2) of
           None \<Rightarrow> Inr (InvalidPath, s\<lparr>ctx := c2\<rparr>)
         | Some sourceCodeText \<Rightarrow>
             (let (failed, c3) = AllocateChunk env c2 SourceCodeChunk in
              if failed then Inr (CannotAllocateChunk, s\<lparr>ctx := c3\<rparr>)
              else
                (let sourceCodeSize = length sourceCodeText in
                 if sourceCodeSize < 10 then
                   Inr (Error, s\<lparr>ctx := c3,
                                 LogWarnings := LogWarnings s @ [''Empty shader source file.'']\<rparr>)
                 else
                   (case Header_Chunks c3 SourceCodeChunk of
                      None \<Rightarrow> Inl NullChunkDereference
                    | Some sourceCodeChunk \<Rightarrow>
                        (let buf0 = Allocate env (sourceCodeSize + 1);
                             buf1 = MemoryCopy buf0 sourceCodeText sourceCodeSize;
                             buf2 = EncryptBytes env buf1 sourceCodeSize;
                             buf3 = buf2[sourceCodeSize := 0];
                             c4 = c3\<lparr>Header_Chunks :=
                                      (Header_Chunks c3)(SourceCodeChunk \<mapsto>
                                         sourceCodeChunk\<lparr>Data := buf3\<rparr>)\<rparr>;
                             shaderHeader = MemoryClear (sizeof_Header20 env);
                             c5 = c4\<lparr>CustomData := shaderHeader\<rparr>;
                             s5 = s\<lparr>ctx := c5\<rparr>;
                             s6 = (if COMPILE_WITH_SHADER_CACHE_MANAGER env
                                   then RemoveCache (Header_ID c5) s5 else s5)
                         in Inr (Ok, s6))))))"

subsection \<open>Specification side\<close>

text \<open>
  \<open>encrypted env bytes\<close>: what \<open>Encryption::EncryptBytes\<close> makes of a buffer that holds
  exactly \<open>bytes\<close>. \<open>entry_context c\<close>: the context after the two statements at the top
  of the function, which every path runs.
\<close>

definition encrypted :: "Environment \<Rightarrow> byte list \<Rightarrow> byte list" where
  "encrypted env bytes = EncryptBytes env bytes (length bytes)"

definition entry_context :: "CreateAssetContext \<Rightarrow> CreateAssetContext" where
  "entry_context c = (IMPORT_SETUP ''Shader'' 20 c)\<lparr>SkipMetadata := True\<rparr>"

subsection \<open>Concrete data for evaluation\<close>

text \<open>
  The source \<open>float x=1;\<close> (ten characters) and its first nine characters; an
  environment in which encryption is XOR with \<open>0x5A\<close>, allocation of a chunk fails when
  the slot is taken, and the shader cache manager is compiled in; the same environment
  without the shader cache manager.
\<close>

definition demo_source :: "byte list" where
  "demo_source = [0x66, 0x6C, 0x6F, 0x61, 0x74, 0x20, 0x78, 0x3D, 0x31, 0x3B]"

definition demo_short_source :: "byte list" where
  "demo_short_source = [0x66, 0x6C, 0x6F, 0x61, 0x74, 0x20, 0x78, 0x3D, 0x31]"

definition demo_env :: Environment where
  "demo_env =
     \<lparr>File_ReadAllText =
        (\<lambda>path. if path = ''Quad.shader'' then Some demo_source
                else if path = ''Short.shader'' then Some demo_short_source
                else None),
      AllocateChunk_fails = (\<lambda>c index. Header_Chunks c index \<noteq> None),
      Uninitialized = (\<lambda>offset. 0xCD),
      Encrypted_byte = (\<lambda>bytes offset. (bytes ! offset) XOR 0x5A),
      sizeof_Header20 = 4,
      COMPILE_WITH_SHADER_CACHE_MANAGER = True\<rparr>"

definition nocache_env :: Environment where
  "nocache_env = demo_env\<lparr>COMPILE_WITH_SHADER_CACHE_MANAGER := False\<rparr>"

definition demo_context :: "string \<Rightarrow> CreateAssetContext" where
  "demo_context path =
     \<lparr>InputPath = path, SkipMetadata = False, Header_TypeName = [], SerializedVersion = 0,
      Header_ID = 7, Header_Chunks = Map.empty, CustomData = []\<rparr>"

definition demo_state :: "string \<Rightarrow> ImportState" where
  "demo_state path =
     \<lparr>ctx = demo_context path,
      ShaderCache = [7 \<mapsto> [1, 2, 3], 9 \<mapsto> [4]],
      RemoveCache_calls = [],
      LogWarnings = []\<rparr>"

definition demo_occupied_state :: ImportState where
  "demo_occupied_state =
     (demo_state ''Quad.shader'')
       \<lparr>ctx := (demo_context ''Quad.shader'')\<lparr>Header_Chunks := [15 \<mapsto> \<lparr>Data = [1]\<rparr>]\<rparr>\<rparr>"


definition demo_stored_context :: CreateAssetContext where
  "demo_stored_context =
     \<lparr>InputPath = ''Quad.shader'', SkipMetadata = True, Header_TypeName = ''Shader'',
      SerializedVersion = 20, Header_ID = 7,
      Header_Chunks =
        [15 \<mapsto> \<lparr>Data = [0x3C, 0x36, 0x35, 0x3B, 0x2E, 0x7A, 0x22, 0x67, 0x6B, 0x61, 0]\<rparr>],
      CustomData = [0, 0, 0, 0]\<rparr>"

definition demo_final :: ImportState where
  "demo_final =
     \<lparr>ctx = demo_stored_context,
      ShaderCache = [9 \<mapsto> [4]],
      RemoveCache_calls = [7],
      LogWarnings = []\<rparr>"

definition nocache_final :: ImportState where
  "nocache_final =
     \<lparr>ctx = demo_stored_context,
      ShaderCache = [7 \<mapsto> [1, 2, 3], 9 \<mapsto> [4]],
      RemoveCache_calls = [],
      LogWarnings = []\<rparr>"

section \<open>Properties of CombineTransformsFromNodeIndices\<close>

subsection \<open>Unfolding the recursion once\<close>

lemma Combine_base:
  "index = -1 \<or> index = rootIndex \<Longrightarrow>
   CombineTransformsFromNodeIndices L I nodes rootIndex index = Some (Inr I)"
  by (subst CombineTransformsFromNodeIndices.simps) simp

lemma Combine_fault:
  "index \<noteq> -1 \<Longrightarrow> index \<noteq> rootIndex \<Longrightarrow> \<not> in_bounds nodes index \<Longrightarrow>
   CombineTransformsFromNodeIndices L I nodes rootIndex index = Some (Inl IndexOutOfRange)"
  by (subst CombineTransformsFromNodeIndices.simps) (simp add: at_index_def)

lemma Combine_step:
  "index \<noteq> -1 \<Longrightarrow> index \<noteq> rootIndex \<Longrightarrow> in_bounds nodes index \<Longrightarrow>
   CombineTransformsFromNodeIndices L I nodes rootIndex index =
     do { r \<leftarrow> CombineTransformsFromNodeIndices L I nodes rootIndex
                 (ParentIndex (element nodes index));
          (case r of Inl e \<Rightarrow> Some (Inl e)
           | Inr p \<Rightarrow> Some (Inr (L p (LocalTransform (element nodes index))))) }"
  by (subst CombineTransformsFromNodeIndices.simps) (simp add: at_index_def)

lemma simplified_base:
  "index = -1 \<or> index = rootIndex \<Longrightarrow>
   CombineTransforms_simplified L I nodes rootIndex index = Some (Inr I)"
  by (subst CombineTransforms_simplified.simps) simp

lemma simplified_fault:
  "index \<noteq> -1 \<Longrightarrow> index \<noteq> rootIndex \<Longrightarrow> \<not> in_bounds nodes index \<Longrightarrow>
   CombineTransforms_simplified L I nodes rootIndex index = Some (Inl IndexOutOfRange)"
  by (subst CombineTransforms_simplified.simps) (simp add: at_index_def)

lemma simplified_step:
  "index \<noteq> -1 \<Longrightarrow> index \<noteq> rootIndex \<Longrightarrow> in_bounds nodes index \<Longrightarrow>
   CombineTransforms_simplified L I nodes rootIndex index =
     do { r \<leftarrow> CombineTransforms_simplified L I nodes rootIndex
                 (ParentIndex (element nodes index));
          (case r of Inl e \<Rightarrow> Some (Inl e)
           | Inr p \<Rightarrow> Some (Inr (L p (LocalTransform (element nodes index))))) }"
  by (subst CombineTransforms_simplified.simps) (simp add: at_index_def)

text \<open>The bodies of the two functionals, at an index that takes the recursive branch.\<close>

lemma body_step:
  "index \<noteq> -1 \<Longrightarrow> index \<noteq> rootIndex \<Longrightarrow> in_bounds nodes index \<Longrightarrow>
   (if index = -1 \<or> index = rootIndex then Some (Inr I)
    else case at_index nodes index of
      Inl e \<Rightarrow> Some (Inl e)
    | Inr node \<Rightarrow>
        (let result = LocalTransform node in
         if index \<noteq> rootIndex then
           f L I nodes rootIndex (ParentIndex node) \<bind>
             (\<lambda>r. case r of Inl e \<Rightarrow> Some (Inl e)
                  | Inr parentTransform \<Rightarrow> Some (Inr (L parentTransform result)))
         else Some (Inr result))) =
   f L I nodes rootIndex (ParentIndex (element nodes index)) \<bind>
     (\<lambda>r. case r of Inl e \<Rightarrow> Some (Inl e)
          | Inr p \<Rightarrow> Some (Inr (L p (LocalTransform (element nodes index)))))"
  by (simp add: at_index_def)

lemma simplified_body_step:
  "index \<noteq> -1 \<Longrightarrow> index \<noteq> rootIndex \<Longrightarrow> in_bounds nodes index \<Longrightarrow>
   (if index = -1 \<or> index = rootIndex then Some (Inr I)
    else case at_index nodes index of
      Inl e \<Rightarrow> Some (Inl e)
    | Inr node \<Rightarrow>
        (let result = LocalTransform node in
         f L I nodes rootIndex (ParentIndex node) \<bind>
           (\<lambda>r. case r of Inl e \<Rightarrow> Some (Inl e)
                | Inr parentTransform \<Rightarrow> Some (Inr (L parentTransform result))))) =
   f L I nodes rootIndex (ParentIndex (element nodes index)) \<bind>
     (\<lambda>r. case r of Inl e \<Rightarrow> Some (Inl e)
          | Inr p \<Rightarrow> Some (Inr (L p (LocalTransform (element nodes index)))))"
  by (simp add: at_index_def)

subsection \<open>Chains that end at the root\<close>

lemma Combine_chain:
  "parent_chain nodes rootIndex index path \<Longrightarrow>
   CombineTransformsFromNodeIndices L I nodes rootIndex index =
     Some (Inr (compose_from_root L I nodes path))"
proof (induction path arbitrary: index)
  case Nil
  then show ?case by (simp add: Combine_base compose_from_root_def)
next
  case (Cons i path)
  then show ?case by (simp add: Combine_step compose_from_root_def)
qed

lemma parent_chain_unique:
  "parent_chain nodes r i p \<Longrightarrow> parent_chain nodes r i q \<Longrightarrow> p = q"
proof (induction p arbitrary: i q)
  case Nil
  then show ?case by (cases q) auto
next
  case (Cons a p)
  then show ?case by (cases q) auto
qed

lemma parent_chain_suffix:
  "parent_chain nodes r i p \<Longrightarrow> j \<in> set p \<Longrightarrow>
   \<exists>q. parent_chain nodes r j q \<and> length q \<le> length p"
proof (induction p arbitrary: i)
  case Nil
  then show ?case by simp
next
  case (Cons a p)
  show ?case
  proof (cases "j = i")
    case True
    with Cons.prems show ?thesis by blast
  next
    case False
    with Cons.prems have "j \<in> set p" by auto
    moreover from Cons.prems
    have "parent_chain nodes r (ParentIndex (element nodes i)) p" by simp
    ultimately obtain q where "parent_chain nodes r j q" "length q \<le> length p"
      using Cons.IH by blast
    then show ?thesis by auto
  qed
qed

lemma parent_chain_distinct:
  "parent_chain nodes r i p \<Longrightarrow> distinct p"
proof (induction p arbitrary: i)
  case Nil
  then show ?case by simp
next
  case (Cons a p)
  then have a: "a = i"
    and tl: "parent_chain nodes r (ParentIndex (element nodes i)) p" by simp_all
  have "i \<notin> set p"
  proof
    assume "i \<in> set p"
    then obtain q where q: "parent_chain nodes r i q" "length q \<le> length p"
      using parent_chain_suffix [OF tl] by blast
    with Cons.prems have "q = a # p" using parent_chain_unique by blast
    with q show False by simp
  qed
  with a tl Cons.IH show ?case by simp
qed

subsection \<open>Chains that never reach the root\<close>

lemma Combine_trapped:
  assumes "CombineTransformsFromNodeIndices L I nodes r i = Some y"
  shows "\<not> (i \<in> S \<and> (\<forall>j \<in> S. j \<noteq> -1 \<and> j \<noteq> r \<and> in_bounds nodes j \<and>
                              ParentIndex (element nodes j) \<in> S))"
  using assms
proof (induction L I nodes r i y
    rule: CombineTransformsFromNodeIndices.raw_induct [rotated 1, consumes 1])
  case (1 f L I nodes r i y)
  show ?case
  proof
    assume h: "i \<in> S \<and> (\<forall>j \<in> S. j \<noteq> -1 \<and> j \<noteq> r \<and> in_bounds nodes j \<and>
                                ParentIndex (element nodes j) \<in> S)"
    then have c: "i \<noteq> -1" "i \<noteq> r" "in_bounds nodes i"
      and p: "ParentIndex (element nodes i) \<in> S" by auto
    from 1(2) obtain y' where "f L I nodes r (ParentIndex (element nodes i)) = Some y'"
      unfolding body_step [OF c]
      by (cases "f L I nodes r (ParentIndex (element nodes i))") simp_all
    from 1(1) [OF this]
    have "\<not> (ParentIndex (element nodes i) \<in> S \<and>
              (\<forall>j \<in> S. j \<noteq> -1 \<and> j \<noteq> r \<and> in_bounds nodes j \<and>
                         ParentIndex (element nodes j) \<in> S))" .
    with h p show False by simp
  qed
qed

lemma Combine_diverges:
  assumes "i \<in> S"
    and "\<forall>j \<in> S. j \<noteq> -1 \<and> j \<noteq> r \<and> in_bounds nodes j \<and> ParentIndex (element nodes j) \<in> S"
  shows "CombineTransformsFromNodeIndices L I nodes r i = None"
proof (cases "CombineTransformsFromNodeIndices L I nodes r i")
  case None
  then show ?thesis .
next
  case (Some y)
  from Combine_trapped [OF Some, of S] assms show ?thesis by simp
qed

subsection \<open>The inner test\<close>

lemma simplified_le:
  assumes "CombineTransformsFromNodeIndices L I nodes r i = Some y"
  shows "CombineTransforms_simplified L I nodes r i = Some y"
  using assms
proof (induction L I nodes r i y
    rule: CombineTransformsFromNodeIndices.raw_induct [rotated 1, consumes 1])
  case (1 f L I nodes r i y)
  show ?case
  proof (cases "i = -1 \<or> i = r")
    case True
    with 1(2) show ?thesis by (simp add: simplified_base)
  next
    case False
    then have ne: "i \<noteq> -1" "i \<noteq> r" by simp_all
    show ?thesis
    proof (cases "in_bounds nodes i")
      case oob: False
      with ne 1(2) show ?thesis by (simp add: simplified_fault at_index_def)
    next
      case True
      from 1(2) obtain y' where y': "f L I nodes r (ParentIndex (element nodes i)) = Some y'"
        unfolding body_step [OF ne True]
        by (cases "f L I nodes r (ParentIndex (element nodes i))") simp_all
      with 1(2) have "(case y' of Inl e \<Rightarrow> Some (Inl e)
          | Inr p \<Rightarrow> Some (Inr (L p (LocalTransform (element nodes i))))) = Some y"
        unfolding body_step [OF ne True] by simp
      with 1(1) [OF y'] show ?thesis by (simp add: simplified_step [OF ne True])
    qed
  qed
qed

lemma simplified_ge:
  assumes "CombineTransforms_simplified L I nodes r i = Some y"
  shows "CombineTransformsFromNodeIndices L I nodes r i = Some y"
  using assms
proof (induction L I nodes r i y
    rule: CombineTransforms_simplified.raw_induct [rotated 1, consumes 1])
  case (1 f L I nodes r i y)
  show ?case
  proof (cases "i = -1 \<or> i = r")
    case True
    with 1(2) show ?thesis by (simp add: Combine_base)
  next
    case False
    then have ne: "i \<noteq> -1" "i \<noteq> r" by simp_all
    show ?thesis
    proof (cases "in_bounds nodes i")
      case oob: False
      with ne 1(2) show ?thesis by (simp add: Combine_fault at_index_def)
    next
      case True
      from 1(2) obtain y' where y': "f L I nodes r (ParentIndex (element nodes i)) = Some y'"
        unfolding simplified_body_step [OF ne True]
        by (cases "f L I nodes r (ParentIndex (element nodes i))") simp_all
      with 1(2) have "(case y' of Inl e \<Rightarrow> Some (Inl e)
          | Inr p \<Rightarrow> Some (Inr (L p (LocalTransform (element nodes i))))) = Some y"
        unfolding simplified_body_step [OF ne True] by simp
      with 1(1) [OF y'] show ?thesis by (simp add: Combine_step [OF ne True])
    qed
  qed
qed

subsection \<open>The claims\<close>

text \<open>
  C1 (as amended). The function has no cycle check and no error result. Whenever the
  parent chain from \<open>index\<close> stays inside a set \<open>S\<close> of in-range indices that contains
  neither \<open>rootIndex\<close> nor \<open>-1\<close> and is closed under \<open>ParentIndex\<close> (a parent-index cycle,
  or a self-referential node, that is reachable from \<open>index\<close> and does not pass through
  \<open>rootIndex\<close>), the call reports nothing and does not return: the recursion is unbounded.
\<close>

theorem CombineTransforms_cycle_never_returns:
  assumes "index \<in> set S" and "parent_closed nodes rootIndex S"
  shows "CombineTransformsFromNodeIndices L I nodes rootIndex index = None"
proof (rule Combine_diverges [where S = "set S"])
  show "index \<in> set S" by (rule assms(1))
  show "\<forall>j \<in> set S. j \<noteq> -1 \<and> j \<noteq> rootIndex \<and> in_bounds nodes j \<and>
          ParentIndex (element nodes j) \<in> set S"
    using assms(2) by (simp add: parent_closed_def list_all_iff)
qed

theorem CombineTransforms_cycle_never_returns_witness:
  "(1::int32) \<in> set [1, 2] \<and> parent_closed cyclic_nodes 0 [1, 2] \<and>
   CombineTransformsFromNodeIndices line_LocalToWorld line_Identity cyclic_nodes 0 1 = None"
proof -
  have a: "(1::int32) \<in> set [1, 2]" by simp
  have b: "parent_closed cyclic_nodes 0 [1, 2]"
    by (simp add: parent_closed_def in_bounds_def element_def cyclic_nodes_def)
  from a b CombineTransforms_cycle_never_returns [OF a b, of line_LocalToWorld line_Identity]
  show ?thesis by (intro conjI)
qed

text \<open>
  C1 (as stated) fails: in \<open>cyclic_nodes\<close> the nodes 1 and 2 are each other's parent and
  the root is node 0. Resolving node 1 does not end with an error result; it does not
  end at all.
\<close>

theorem CombineTransforms_cycle_counterexample:
  "CombineTransformsFromNodeIndices line_LocalToWorld line_Identity cyclic_nodes 0 1 = None"
proof (rule Combine_diverges [where S = "{1, 2}"])
  show "(1::int32) \<in> {1, 2}" by simp
  show "\<forall>j \<in> {1, 2 :: int32}. j \<noteq> -1 \<and> j \<noteq> 0 \<and> in_bounds cyclic_nodes j \<and>
          ParentIndex (element cyclic_nodes j) \<in> {1, 2}"
    by (simp add: in_bounds_def element_def cyclic_nodes_def)
qed

text \<open>
  C2. When the parent chain from \<open>index\<close> ends at \<open>rootIndex\<close> or at \<open>-1\<close> (witnessed by
  \<open>path\<close>, the indices from \<open>index\<close> up to the child of the root), the function returns;
  the result is the identity for \<open>index = -1\<close> or \<open>index = rootIndex\<close>, and in general the
  composition, by \<open>LocalToWorld\<close> with the parent as receiver, of the local transforms on
  the path from the root end down to \<open>index\<close>. No index occurs twice on the path, so each
  local transform enters the composition exactly once.
\<close>

theorem CombineTransforms_composes_parent_chain:
  assumes "parent_chain nodes rootIndex index path"
  shows "CombineTransformsFromNodeIndices L I nodes rootIndex index =
           Some (Inr (compose_from_root L I nodes path)) \<and>
         distinct path \<and>
         (if index = -1 \<or> index = rootIndex
          then path = [] \<and> compose_from_root L I nodes path = I
          else hd path = index \<and>
               compose_from_root L I nodes path =
                 L (compose_from_root L I nodes (tl path))
                   (LocalTransform (element nodes index)))"
proof -
  have "CombineTransformsFromNodeIndices L I nodes rootIndex index =
          Some (Inr (compose_from_root L I nodes path))"
    using assms by (rule Combine_chain)
  moreover have "distinct path"
    using assms by (rule parent_chain_distinct)
  moreover have "if index = -1 \<or> index = rootIndex
          then path = [] \<and> compose_from_root L I nodes path = I
          else hd path = index \<and>
               compose_from_root L I nodes path =
                 L (compose_from_root L I nodes (tl path))
                   (LocalTransform (element nodes index))"
    using assms by (cases path) (auto simp: compose_from_root_def)
  ultimately show ?thesis by simp
qed

theorem CombineTransforms_composes_parent_chain_witness:
  "parent_chain tree_nodes 0 2 [2, 1] \<and>
   CombineTransformsFromNodeIndices line_LocalToWorld line_Identity tree_nodes 0 2 =
     Some (Inr (3, 26)) \<and>
   compose_from_root line_LocalToWorld line_Identity tree_nodes [2, 1] =
     line_LocalToWorld (line_LocalToWorld line_Identity (3, 5)) (1, 7)"
proof -
  have c: "parent_chain tree_nodes 0 2 [2, 1]"
    by (simp add: in_bounds_def element_def tree_nodes_def)
  have v: "compose_from_root line_LocalToWorld line_Identity tree_nodes [2, 1] =
      line_LocalToWorld (line_LocalToWorld line_Identity (3, 5)) (1, 7)"
    by (simp add: compose_from_root_def element_def tree_nodes_def)
  have e: "line_LocalToWorld (line_LocalToWorld line_Identity (3, 5)) (1, 7) = (3, 26)"
    by (simp add: line_LocalToWorld_def line_Identity_def)
  have "CombineTransformsFromNodeIndices line_LocalToWorld line_Identity tree_nodes 0 2 =
      Some (Inr (compose_from_root line_LocalToWorld line_Identity tree_nodes [2, 1]))"
    using CombineTransforms_composes_parent_chain [OF c, of line_LocalToWorld line_Identity]
    by (rule conjunct1)
  then have "CombineTransformsFromNodeIndices line_LocalToWorld line_Identity tree_nodes 0 2 =
      Some (Inr (3, 26))"
    by (simp only: v e)
  with c v show ?thesis by (intro conjI)
qed

text \<open>
  C10. The inner test \<open>if (index != rootIndex)\<close> is redundant: the function and the
  variant without the test agree on every input, on those where the call returns (with
  the same outcome) and on those where it does not (neither returns).
\<close>

theorem CombineTransforms_inner_test_redundant:
  "CombineTransformsFromNodeIndices L I nodes rootIndex index =
   CombineTransforms_simplified L I nodes rootIndex index"
proof (cases "CombineTransformsFromNodeIndices L I nodes rootIndex index")
  case None
  then show ?thesis using simplified_ge [of L I nodes rootIndex index]
    by (cases "CombineTransforms_simplified L I nodes rootIndex index") auto
next
  case (Some y)
  then show ?thesis by (simp add: simplified_le)
qed

section \<open>Properties of the import options\<close>

text \<open>
  C3. A default-constructed \<open>ModelTool::Options\<close> has the documented value in each of
  the thirty-seven documented fields.
\<close>

theorem Options_default_fields:
  "Type Options_default = Model \<and>
   CalculateNormals Options_default = False \<and>
   SmoothingNormalsAngle Options_default = 175 \<and>
   FlipNormals Options_default = False \<and>
   CalculateTangents Options_default = False \<and>
   SmoothingTangentsAngle Options_default = 45 \<and>
   OptimizeMeshes Options_default = True \<and>
   MergeMeshes Options_default = True \<and>
   ImportLODs Options_default = True \<and>
   ImportVertexColors Options_default = True \<and>
   ImportBlendShapes Options_default = False \<and>
   LightmapUVsSource Options_default = Disable \<and>
   CollisionMeshesPrefix Options_default = [] \<and>
   Scale Options_default = 1 \<and>
   Rotation Options_default = Quaternion_Identity \<and>
   Translation Options_default = Float3_Zero \<and>
   CenterGeometry Options_default = False \<and>
   Duration Options_default = Imported \<and>
   FramesRange Options_default = \<lparr>X2 = 0, Y2 = 0\<rparr> \<and>
   DefaultFrameRate Options_default = 0 \<and>
   SamplingRate Options_default = 0 \<and>
   SkipEmptyCurves Options_default = True \<and>
   OptimizeKeyframes Options_default = True \<and>
   ImportScaleTracks Options_default = False \<and>
   EnableRootMotion Options_default = False \<and>
   RootNodeName Options_default = [] \<and>
   GenerateLODs Options_default = False \<and>
   BaseLOD Options_default = 0 \<and>
   LODCount Options_default = 4 \<and>
   TriangleReduction Options_default = 1 / 2 \<and>
   ImportMaterials Options_default = True \<and>
   ImportTextures Options_default = True \<and>
   RestoreMaterialsOnReimport Options_default = True \<and>
   GenerateSDF Options_default = False \<and>
   SDFResolution Options_default = 1 \<and>
   SplitObjects Options_default = False \<and>
   ObjectIndex Options_default = -1 \<and>
   sint (ObjectIndex Options_default) = -1"
  by (simp add: Options_default_def Float2_Zero_def)




section \<open>Properties of the destructor\<close>

lemma foldl_Delete_deleted: "deleted (foldl Delete h ps) = deleted h @ ps"
  by (induction ps arbitrary: h) (simp_all add: Delete_def)

lemma foldl_Delete_live: "live (foldl Delete h ps) = live h - set ps"
  by (induction ps arbitrary: h) (auto simp: Delete_def)

text \<open>
  The loop invariant, read at the end of the loop: the arrays at positions below \<open>i\<close>
  are as they were, those from \<open>i\<close> on are empty, and exactly their elements have been
  deleted, in order.
\<close>

lemma dtor_loop_inv:
  "ImportedModelData_dtor_loop i (d, h) = (d', h') \<Longrightarrow>
   LODs d' = take i (LODs d) @ map (\<lambda>l. l\<lparr>Meshes := []\<rparr>) (drop i (LODs d)) \<and>
   Types d' = Types d \<and>
   deleted h' = deleted h @ concat (map Meshes (drop i (LODs d))) \<and>
   live h' = live h - set (concat (map Meshes (drop i (LODs d))))"
proof (induction i "(d, h)" arbitrary: d h rule: ImportedModelData_dtor_loop.induct)
  case (1 i d h)
  show ?case
  proof (cases "i < length (LODs d)")
    case False
    with "1.prems" show ?thesis by simp
  next
    case True
    let ?l = "LODs d ! i"
    let ?d1 = "d\<lparr>LODs := (LODs d)[i := ?l\<lparr>Meshes := []\<rparr>]\<rparr>"
    let ?h1 = "foldl Delete h (Meshes ?l)"
    from True "1.prems"
    have run: "ImportedModelData_dtor_loop (i + 1) (?d1, ?h1) = (d', h')"
      by (simp add: ClearDelete_def)
    have cd: "ClearDelete h (Meshes ?l) = (?h1, [])"
      by (simp add: ClearDelete_def)
    from "1.hyps" [OF True cd [symmetric] refl run]
    have ih:
      "LODs d' = take (i + 1) (LODs ?d1) @
                 map (\<lambda>l. l\<lparr>Meshes := []\<rparr>) (drop (i + 1) (LODs ?d1))"
      "Types d' = Types ?d1"
      "deleted h' = deleted ?h1 @ concat (map Meshes (drop (i + 1) (LODs ?d1)))"
      "live h' = live ?h1 - set (concat (map Meshes (drop (i + 1) (LODs ?d1))))"
      by simp_all
    have dr: "drop i (LODs d) = ?l # drop (i + 1) (LODs d)"
      using True by (simp add: Cons_nth_drop_Suc)
    have tk: "take (i + 1) (LODs ?d1) = take i (LODs d) @ [?l\<lparr>Meshes := []\<rparr>]"
      using True by (simp add: take_Suc_conv_app_nth)
    have dr1: "drop (i + 1) (LODs ?d1) = drop (i + 1) (LODs d)"
      by simp
    show ?thesis
      using ih unfolding tk dr1 dr
      by (auto simp: foldl_Delete_deleted foldl_Delete_live)
  qed
qed

lemma dtor_result:
  "LODs (fst (ImportedModelData_dtor (d, h))) = map (\<lambda>l. l\<lparr>Meshes := []\<rparr>) (LODs d) \<and>
   deleted (snd (ImportedModelData_dtor (d, h))) = deleted h @ concat (map Meshes (LODs d)) \<and>
   live (snd (ImportedModelData_dtor (d, h))) = live h - set (concat (map Meshes (LODs d)))"
proof -
  obtain d' h' where r: "ImportedModelData_dtor_loop 0 (d, h) = (d', h')"
    by (cases "ImportedModelData_dtor_loop 0 (d, h)")
  from dtor_loop_inv [OF r] r show ?thesis
    by (simp add: ImportedModelData_dtor_def)
qed

text \<open>
  C4. After the destructor, for every \<open>i < LODs.Count()\<close>: the array \<open>LODs[i].Meshes\<close>
  is empty and none of its former elements is a live record. The deletions performed are
  exactly the elements of all the arrays, one deletion for each element, in order; the
  live records are those that were live before and belonged to no array.
\<close>

theorem ImportedModelData_dtor_releases_meshes:
  assumes "i < length (LODs d)"
  shows "length (LODs (fst (ImportedModelData_dtor (d, h)))) = length (LODs d) \<and>
         Meshes (LODs (fst (ImportedModelData_dtor (d, h))) ! i) = [] \<and>
         set (Meshes (LODs d ! i)) \<inter> live (snd (ImportedModelData_dtor (d, h))) = {} \<and>
         deleted (snd (ImportedModelData_dtor (d, h))) =
           deleted h @ concat (map Meshes (LODs d)) \<and>
         count_list (deleted (snd (ImportedModelData_dtor (d, h)))) p =
           count_list (deleted h) p + count_list (concat (map Meshes (LODs d))) p \<and>
         live (snd (ImportedModelData_dtor (d, h))) =
           live h - set (concat (map Meshes (LODs d)))"
proof -
  note r = dtor_result [of d h]
  from assms have "LODs d ! i \<in> set (LODs d)"
    by (rule nth_mem)
  then have "set (Meshes (LODs d ! i)) \<subseteq> set (concat (map Meshes (LODs d)))"
    by auto
  with r have "set (Meshes (LODs d ! i)) \<inter> live (snd (ImportedModelData_dtor (d, h))) = {}"
    by auto
  moreover from r assms have "Meshes (LODs (fst (ImportedModelData_dtor (d, h))) ! i) = []"
    by simp
  moreover from r have "length (LODs (fst (ImportedModelData_dtor (d, h)))) = length (LODs d)"
    by simp
  ultimately show ?thesis using r by simp
qed

theorem ImportedModelData_dtor_releases_meshes_witness:
  "(0::nat) < length (LODs three_lods) \<and>
   Meshes (LODs three_lods ! 0) = [100, 200] \<and>
   Meshes (LODs (fst (ImportedModelData_dtor (three_lods, four_meshes))) ! 0) = [] \<and>
   deleted (snd (ImportedModelData_dtor (three_lods, four_meshes))) = [100, 200, 300] \<and>
   live (snd (ImportedModelData_dtor (three_lods, four_meshes))) = {400}"
proof -
  have i: "(0::nat) < length (LODs three_lods)"
    by (simp add: three_lods_def)
  note t = ImportedModelData_dtor_releases_meshes [OF i, of four_meshes 100]
  from t have "Meshes (LODs (fst (ImportedModelData_dtor (three_lods, four_meshes))) ! 0) = []"
    by simp
  moreover from t
  have "deleted (snd (ImportedModelData_dtor (three_lods, four_meshes))) = [100, 200, 300]"
    by (simp add: three_lods_def four_meshes_def)
  moreover from t
  have "live (snd (ImportedModelData_dtor (three_lods, four_meshes))) = {400}"
    by (auto simp: three_lods_def four_meshes_def)
  moreover have "Meshes (LODs three_lods ! 0) = [100, 200]"
    by (simp add: three_lods_def)
  ultimately show ?thesis using i by (intro conjI)
qed

section \<open>Properties of ImportShader::Import\<close>

subsection \<open>The buffer and the paths through the function\<close>

lemma length_encrypted: "length (encrypted env bytes) = length bytes"
  by (simp add: encrypted_def EncryptBytes_def)

lemma encrypted_bytes: "encrypted env bytes = map (Encrypted_byte env bytes) [0..<length bytes]"
  by (simp add: encrypted_def EncryptBytes_def)

lemma entry_context_frame:
  "InputPath (entry_context c) = InputPath c"
  "Header_Chunks (entry_context c) = Header_Chunks c"
  "CustomData (entry_context c) = CustomData c"
  "Header_ID (entry_context c) = Header_ID c"
  "SkipMetadata (entry_context c) = True"
  by (simp_all add: entry_context_def IMPORT_SETUP_def)

text \<open>
  The chunk buffer after allocation, copy, encryption and the write of the terminator:
  the uninitialised last byte is never read and is overwritten.
\<close>

lemma buffer_after_encrypt:
  "(EncryptBytes env (MemoryCopy (Allocate env (Suc (length bytes))) bytes (length bytes))
      (length bytes)) [length bytes := 0] = encrypted env bytes @ [0]"
proof -
  have "drop (length bytes) (Allocate env (Suc (length bytes))) =
      [Uninitialized env (length bytes)]"
    by (simp add: Allocate_def drop_map)
  then show ?thesis
    by (simp add: EncryptBytes_def MemoryCopy_def encrypted_def list_update_append)
qed

text \<open>The four ways through the function, with the state each one leaves.\<close>

lemma Import_unfold:
  "Import env s =
    (case File_ReadAllText env (InputPath (ctx s)) of
       None \<Rightarrow> Inr (InvalidPath, s\<lparr>ctx := entry_context (ctx s)\<rparr>)
     | Some bytes \<Rightarrow>
        if AllocateChunk_fails env (entry_context (ctx s)) SourceCodeChunk
        then Inr (CannotAllocateChunk, s\<lparr>ctx := entry_context (ctx s)\<rparr>)
        else if length bytes < 10
        then Inr (Error, s\<lparr>ctx := (entry_context (ctx s))
                              \<lparr>Header_Chunks := (Header_Chunks (entry_context (ctx s)))
                                  (SourceCodeChunk \<mapsto> \<lparr>Data = []\<rparr>)\<rparr>,
                            LogWarnings := LogWarnings s @ [''Empty shader source file.'']\<rparr>)
        else Inr (Ok,
          (if COMPILE_WITH_SHADER_CACHE_MANAGER env
           then RemoveCache (Header_ID (ctx s)) else id)
            (s\<lparr>ctx := (entry_context (ctx s))
                  \<lparr>Header_Chunks := (Header_Chunks (entry_context (ctx s)))
                      (SourceCodeChunk \<mapsto> \<lparr>Data = encrypted env bytes @ [0]\<rparr>),
                   CustomData := replicate (sizeof_Header20 env) 0\<rparr>\<rparr>)))"
proof (cases "File_ReadAllText env (InputPath (ctx s))")
  case None
  then show ?thesis
    by (simp add: Import_def Let_def entry_context_def IMPORT_SETUP_def)
next
  case (Some source)
  show ?thesis
  proof (cases "AllocateChunk_fails env (entry_context (ctx s)) SourceCodeChunk")
    case True
    with Some show ?thesis
      by (simp add: Import_def Let_def entry_context_def IMPORT_SETUP_def AllocateChunk_def)
  next
    case False
    with Some show ?thesis
      by (simp add: Import_def Let_def entry_context_def IMPORT_SETUP_def AllocateChunk_def
          buffer_after_encrypt MemoryClear_def)
  qed
qed

subsection \<open>The concrete runs\<close>

lemma demo_env_simps:
  "File_ReadAllText demo_env ''Quad.shader'' = Some demo_source"
  "File_ReadAllText demo_env ''Short.shader'' = Some demo_short_source"
  "File_ReadAllText demo_env ''Missing.shader'' = None"
  "AllocateChunk_fails demo_env c i = (Header_Chunks c i \<noteq> None)"
  "sizeof_Header20 demo_env = 4"
  "COMPILE_WITH_SHADER_CACHE_MANAGER demo_env = True"
  by (simp_all add: demo_env_def)

lemma nocache_env_simps:
  "File_ReadAllText nocache_env ''Quad.shader'' = Some demo_source"
  "AllocateChunk_fails nocache_env c i = (Header_Chunks c i \<noteq> None)"
  "sizeof_Header20 nocache_env = 4"
  "COMPILE_WITH_SHADER_CACHE_MANAGER nocache_env = False"
  by (simp_all add: nocache_env_def demo_env_def)

lemma demo_lengths: "length demo_source = 10" "length demo_short_source = 9"
  by (simp_all add: demo_source_def demo_short_source_def)

lemma demo_encrypted:
  "encrypted demo_env demo_source = [0x3C, 0x36, 0x35, 0x3B, 0x2E, 0x7A, 0x22, 0x67, 0x6B, 0x61]"
  by (simp add: encrypted_def EncryptBytes_def demo_env_def demo_source_def upt_rec)

lemma nocache_encrypted: "encrypted nocache_env bytes = encrypted demo_env bytes"
  by (simp add: encrypted_def EncryptBytes_def nocache_env_def)

lemma demo_run: "Import demo_env (demo_state ''Quad.shader'') = Inr (Ok, demo_final)"
  by (simp add: Import_unfold demo_env_simps demo_lengths demo_encrypted demo_state_def
      demo_context_def entry_context_def IMPORT_SETUP_def SourceCodeChunk_def RemoveCache_def
      demo_final_def demo_stored_context_def eval_nat_numeral)

subsection \<open>The claims\<close>

text \<open>
  C6. When the import returns \<open>Ok\<close>, the text was read, and the source-code chunk holds
  a buffer of \<open>n + 1\<close> bytes, \<open>n\<close> the length of the text: its first \<open>n\<close> bytes are what
  \<open>Encryption::EncryptBytes\<close> makes of the text, its last byte is 0.
\<close>

theorem Import_Ok_stores_encrypted_source:
  assumes "Import env s = Inr (Ok, s')"
  shows "case File_ReadAllText env (InputPath (ctx s)) of
           None \<Rightarrow> False
         | Some sourceCodeText \<Rightarrow>
             Header_Chunks (ctx s') SourceCodeChunk =
               Some \<lparr>Data = encrypted env sourceCodeText @ [0]\<rparr> \<and>
             length (encrypted env sourceCodeText @ [0]) = length sourceCodeText + 1 \<and>
             take (length sourceCodeText) (encrypted env sourceCodeText @ [0]) =
               map (Encrypted_byte env sourceCodeText) [0..<length sourceCodeText] \<and>
             (encrypted env sourceCodeText @ [0]) ! length sourceCodeText = 0"
proof (cases "File_ReadAllText env (InputPath (ctx s))")
  case None
  with assms show ?thesis by (simp add: Import_unfold)
next
  case (Some source)
  have n: "length (encrypted env source) = length source"
    by (rule length_encrypted)
  from assms Some
  have "Header_Chunks (ctx s') SourceCodeChunk = Some \<lparr>Data = encrypted env source @ [0]\<rparr>"
    by (auto simp: Import_unfold RemoveCache_def split: if_splits)
  moreover have "take (length source) (encrypted env source @ [0]) =
      map (Encrypted_byte env source) [0..<length source]"
    using n by (simp add: encrypted_bytes)
  moreover have "(encrypted env source @ [0]) ! length source = 0"
    using n by (simp add: nth_append)
  ultimately show ?thesis using Some n by simp
qed

theorem Import_Ok_stores_encrypted_source_witness:
  "Import demo_env (demo_state ''Quad.shader'') = Inr (Ok, demo_final) \<and>
   File_ReadAllText demo_env (InputPath (ctx (demo_state ''Quad.shader''))) = Some demo_source \<and>
   length demo_source = 10 \<and>
   Header_Chunks (ctx demo_final) SourceCodeChunk =
     Some \<lparr>Data = [0x3C, 0x36, 0x35, 0x3B, 0x2E, 0x7A, 0x22, 0x67, 0x6B, 0x61, 0]\<rparr>"
proof -
  have rd: "File_ReadAllText demo_env (InputPath (ctx (demo_state ''Quad.shader''))) =
      Some demo_source"
    by (simp add: demo_env_simps demo_state_def demo_context_def)
  from Import_Ok_stores_encrypted_source [OF demo_run]
  have "Header_Chunks (ctx demo_final) SourceCodeChunk =
      Some \<lparr>Data = encrypted demo_env demo_source @ [0]\<rparr>"
    by (simp add: rd)
  then have "Header_Chunks (ctx demo_final) SourceCodeChunk =
     Some \<lparr>Data = [0x3C, 0x36, 0x35, 0x3B, 0x2E, 0x7A, 0x22, 0x67, 0x6B, 0x61, 0]\<rparr>"
    by (simp add: demo_encrypted)
  with demo_run rd demo_lengths(1) show ?thesis by (intro conjI)
qed

text \<open>
  C7. Every call returns a result code. When the input file cannot be read the code is
  \<open>InvalidPath\<close>; when it can and the chunk allocation fails the code is
  \<open>CannotAllocateChunk\<close>. In both cases nothing after the failing statement has run:
  the state is the one on entry with the type set up and \<open>SkipMetadata\<close> set, so the
  chunks, the custom data, the shader cache and the log are as before.
\<close>

theorem Import_failure_result_codes:
  "(\<exists>code s'. Import env s = Inr (code, s')) \<and>
   (File_ReadAllText env (InputPath (ctx s)) = None \<or>
    AllocateChunk_fails env (entry_context (ctx s)) SourceCodeChunk \<longrightarrow>
      Import env s =
        Inr (if File_ReadAllText env (InputPath (ctx s)) = None then InvalidPath
             else CannotAllocateChunk,
             s\<lparr>ctx := entry_context (ctx s)\<rparr>) \<and>
      Header_Chunks (entry_context (ctx s)) = Header_Chunks (ctx s) \<and>
      CustomData (entry_context (ctx s)) = CustomData (ctx s) \<and>
      ShaderCache (s\<lparr>ctx := entry_context (ctx s)\<rparr>) = ShaderCache s \<and>
      RemoveCache_calls (s\<lparr>ctx := entry_context (ctx s)\<rparr>) = RemoveCache_calls s \<and>
      LogWarnings (s\<lparr>ctx := entry_context (ctx s)\<rparr>) = LogWarnings s)"
proof (cases "File_ReadAllText env (InputPath (ctx s))")
  case None
  then show ?thesis by (simp add: Import_unfold entry_context_frame)
next
  case (Some source)
  then show ?thesis by (simp add: Import_unfold entry_context_frame)
qed

theorem Import_failure_result_codes_witness:
  "File_ReadAllText demo_env (InputPath (ctx (demo_state ''Missing.shader''))) = None \<and>
   Import demo_env (demo_state ''Missing.shader'') =
     Inr (InvalidPath,
          (demo_state ''Missing.shader'')
            \<lparr>ctx := entry_context (demo_context ''Missing.shader'')\<rparr>) \<and>
   AllocateChunk_fails demo_env (entry_context (ctx demo_occupied_state)) SourceCodeChunk \<and>
   Import demo_env demo_occupied_state =
     Inr (CannotAllocateChunk,
          demo_occupied_state\<lparr>ctx := entry_context (ctx demo_occupied_state)\<rparr>) \<and>
   Header_Chunks (entry_context (ctx demo_occupied_state)) 15 = Some \<lparr>Data = [1]\<rparr>"
proof -
  have a: "File_ReadAllText demo_env (InputPath (ctx (demo_state ''Missing.shader''))) = None"
    by (simp add: demo_env_simps demo_state_def demo_context_def)
  have b: "AllocateChunk_fails demo_env (entry_context (ctx demo_occupied_state))
      SourceCodeChunk"
    by (simp add: demo_env_simps demo_occupied_state_def entry_context_frame
        SourceCodeChunk_def)
  have c: "File_ReadAllText demo_env (InputPath (ctx demo_occupied_state)) = Some demo_source"
    by (simp add: demo_env_simps demo_occupied_state_def demo_context_def)
  have "Import demo_env (demo_state ''Missing.shader'') =
     Inr (InvalidPath,
          (demo_state ''Missing.shader'')
            \<lparr>ctx := entry_context (demo_context ''Missing.shader'')\<rparr>)"
    using Import_failure_result_codes [of demo_env "demo_state ''Missing.shader''"] a
    by (simp add: demo_state_def)
  moreover have "Import demo_env demo_occupied_state =
     Inr (CannotAllocateChunk,
          demo_occupied_state\<lparr>ctx := entry_context (ctx demo_occupied_state)\<rparr>)"
    using Import_failure_result_codes [of demo_env demo_occupied_state] b c
    by simp
  moreover have "Header_Chunks (entry_context (ctx demo_occupied_state)) 15 =
      Some \<lparr>Data = [1]\<rparr>"
    by (simp add: entry_context_frame demo_occupied_state_def)
  ultimately show ?thesis using a b by (intro conjI)
qed

text \<open>
  C8 (as amended). The call of \<open>ShaderCacheManager::RemoveCache\<close> is compiled only under
  \<open>COMPILE_WITH_SHADER_CACHE_MANAGER\<close>. With the switch on, an import that returns \<open>Ok\<close>
  has made exactly one \<open>RemoveCache\<close> call, for the identity in the context's header:
  the cache entry under that identity is gone and every other entry is as before. With
  the switch off, the import leaves the cache alone.
\<close>

theorem Import_invalidates_cache_when_compiled_in:
  assumes "Import env s = Inr (Ok, s')"
  shows "Header_ID (ctx s') = Header_ID (ctx s) \<and>
         (if COMPILE_WITH_SHADER_CACHE_MANAGER env
          then ShaderCache s' (Header_ID (ctx s)) = None \<and>
               ShaderCache s' = (ShaderCache s)(Header_ID (ctx s) := None) \<and>
               RemoveCache_calls s' = RemoveCache_calls s @ [Header_ID (ctx s)]
          else ShaderCache s' = ShaderCache s \<and>
               RemoveCache_calls s' = RemoveCache_calls s)"
proof (cases "File_ReadAllText env (InputPath (ctx s))")
  case None
  with assms show ?thesis by (simp add: Import_unfold)
next
  case (Some source)
  with assms show ?thesis
    by (auto simp: Import_unfold RemoveCache_def entry_context_frame split: if_splits)
qed

theorem Import_invalidates_cache_when_compiled_in_witness:
  "COMPILE_WITH_SHADER_CACHE_MANAGER demo_env \<and>
   Import demo_env (demo_state ''Quad.shader'') = Inr (Ok, demo_final) \<and>
   ShaderCache (demo_state ''Quad.shader'') 7 = Some [1, 2, 3] \<and>
   ShaderCache demo_final 7 = None \<and>
   ShaderCache demo_final 9 = Some [4] \<and>
   RemoveCache_calls demo_final = [7]"
proof -
  have f: "COMPILE_WITH_SHADER_CACHE_MANAGER demo_env"
    by (simp add: demo_env_simps)
  from Import_invalidates_cache_when_compiled_in [OF demo_run] f
  have "ShaderCache demo_final = (ShaderCache (demo_state ''Quad.shader''))(7 := None)"
    and "RemoveCache_calls demo_final = [7]"
    by (simp_all add: demo_state_def demo_context_def)
  then have "ShaderCache demo_final 7 = None" "ShaderCache demo_final 9 = Some [4]"
    "RemoveCache_calls demo_final = [7]"
    by (simp_all add: demo_state_def)
  moreover have "ShaderCache (demo_state ''Quad.shader'') 7 = Some [1, 2, 3]"
    by (simp add: demo_state_def)
  ultimately show ?thesis using f demo_run by (intro conjI)
qed

text \<open>
  C8 (as stated) fails: built without the shader cache manager, the import of
  \<open>Quad.shader\<close> returns \<open>Ok\<close>, and the cache entry under the asset's identity 7 is
  still there; no \<open>RemoveCache\<close> call was made.
\<close>

theorem Import_cache_counterexample:
  "Import nocache_env (demo_state ''Quad.shader'') = Inr (Ok, nocache_final) \<and>
   Header_ID (ctx (demo_state ''Quad.shader'')) = 7 \<and>
   ShaderCache (demo_state ''Quad.shader'') 7 = Some [1, 2, 3] \<and>
   ShaderCache nocache_final 7 = Some [1, 2, 3] \<and>
   RemoveCache_calls nocache_final = []"
  by (simp add: Import_unfold nocache_env_simps demo_lengths demo_encrypted nocache_encrypted
      demo_state_def demo_context_def entry_context_def IMPORT_SETUP_def SourceCodeChunk_def
      nocache_final_def demo_stored_context_def eval_nat_numeral)




end
